theory Spec2Isabelle
  imports Complex_Main
begin

section \<open>Data model (models.py)\<close>

text \<open>
  The scoring engine reads two fields of a transaction, \<open>action\<close> and \<open>timestamp\<close>;
  the remaining fields of \<open>Transaction\<close> (document id, caller, protocol and the optional
  pool, token, amount and block metadata) are carried through validation and never
  consulted by the engine, so the record keeps the two that are read.
  Python integers are unbounded: \<open>int\<close>. Python numbers that may be floats
  (\<open>lp_score\<close>, \<open>swap_score\<close>, \<open>final_score\<close>) are modelled as \<open>real\<close>: the values
  the engine computes are multiples of 100 combined with the weights 0.6 and 0.4, and
  no claim below depends on binary rounding.
\<close>

record transaction =
  action :: string
  timestamp :: int

record protocol_data =
  protocolType :: string
  transactions :: "transaction list"

record wallet_transaction_message =
  wallet_address :: string
  data :: "protocol_data list"

text \<open>Exceptions raised along the paths that are modelled.\<close>

datatype error =
    ValidationError
  | OutOfBoundsDatetime
  | KeyError
  | AttributeError
  | TypeError

text \<open>
  The values stored in the engine's \<open>features\<close> dictionary. A dictionary is an
  association list in insertion order with distinct keys.
\<close>

datatype pyval =
    PNum real
  | PInt int
  | PTags "string list"

type_synonym features = "(string \<times> pyval) list"

section \<open>Scoring engine (ai_model.py)\<close>

subsection \<open>Normalizer tables\<close>

definition SCORE_MAP :: "string \<Rightarrow> ((real \<times> real) \<times> real) list option" where
  "SCORE_MAP score_type =
     (if score_type = ''lp_score'' then
        Some [((0, 1), 150), ((1, 5), 250), ((5, 10), 350), ((10, 25), 450), ((25, 50), 550),
              ((50, 75), 650), ((75, 90), 750), ((90, 95), 850), ((95, 99), 950), ((99, 100), 1000)]
      else if score_type = ''swap_score'' then
        Some [((0, 1), 150), ((1, 5), 250), ((5, 10), 350), ((10, 25), 450), ((25, 50), 550),
              ((50, 75), 650), ((75, 90), 800), ((90, 95), 900), ((95, 99), 950), ((99, 100), 1000)]
      else None)"

text \<open>
  \<open>_normalize_score\<close>: the first bucket, in table order, with \<open>lower \<le> score < upper\<close>
  decides; otherwise a score of at least 99 gives the entry of the key \<open>(99, 100)\<close>
  (default 1000), and anything else gives 0. An unknown \<open>score_type\<close> is a KeyError.
\<close>

fun first_bucket :: "real \<Rightarrow> ((real \<times> real) \<times> real) list \<Rightarrow> real option" where
  "first_bucket score [] = None"
| "first_bucket score (((lower, upper), v) # rest) =
     (if lower \<le> score \<and> score < upper then Some v else first_bucket score rest)"

definition normalize_score :: "real \<Rightarrow> string \<Rightarrow> error + real" where
  "normalize_score score score_type =
     (case SCORE_MAP score_type of
        None \<Rightarrow> Inl KeyError
      | Some score_map \<Rightarrow>
          (case first_bucket score score_map of
             Some v \<Rightarrow> Inr v
           | None \<Rightarrow>
               if score \<ge> 99
               then Inr (case map_of score_map (99, 100) of Some v \<Rightarrow> v | None \<Rightarrow> 1000)
               else Inr 0))"

subsection \<open>Active days\<close>

text \<open>
  \<open>pd.to_datetime(df['timestamp'], unit='s').dt.date\<close>: the UTC calendar date of an
  epoch second is its day number \<open>t div 86400\<close> (floor division), and two seconds
  have the same date exactly when they have the same day number. pandas (1.x and 2.x)
  stores the converted column as 64-bit nanosecond counts, so a second count below
  \<open>-9223372036\<close> or above \<open>9223372036\<close> cannot be represented and the conversion
  raises OutOfBoundsDatetime for the whole column.
\<close>

definition representable :: "int \<Rightarrow> bool" where
  "representable t = (- 9223372036 \<le> t \<and> t \<le> 9223372036)"

definition to_dates :: "int list \<Rightarrow> error + int list" where
  "to_dates ts =
     (if list_all representable ts then Inr (map (\<lambda>t. t div 86400) ts)
      else Inl OutOfBoundsDatetime)"

text \<open>
  \<open>_calculate_active_days\<close>: 0 for an empty frame, otherwise the number of distinct
  dates, except that a count of 10 is reported as 9.
\<close>

definition calculate_active_days :: "transaction list \<Rightarrow> error + int" where
  "calculate_active_days df =
     (if df = [] then Inr 0
      else
        (case to_dates (map timestamp df) of
           Inl e \<Rightarrow> Inl e
         | Inr dates \<Rightarrow>
             (let active_days = int (length (remdups dates))
              in Inr (if active_days = 10 then 9 else active_days))))"

subsection \<open>Sub-scores and tags\<close>

text \<open>
  \<open>df[df['action'].isin([...])]\<close>: the rows whose action is one of the listed strings.
\<close>

definition lp_rows :: "transaction list \<Rightarrow> transaction list" where
  "lp_rows df = filter (\<lambda>t. action t \<in> set [''add_liquidity'', ''remove_liquidity'']) df"

definition swap_rows :: "transaction list \<Rightarrow> transaction list" where
  "swap_rows df = filter (\<lambda>t. action t \<in> set [''swap'']) df"

text \<open>
  \<open>_process_dex_transactions\<close>. The liquidity branch calls \<open>_calculate_active_days\<close>
  on the liquidity rows, which may raise; the swap branch does not.
\<close>

definition process_dex_transactions ::
  "transaction list \<Rightarrow> error + (real \<times> real \<times> string list)" where
  "process_dex_transactions df =
     (if df = [] then Inr (0, 0, [''inactive''])
      else
        (let lp_df = lp_rows df; swap_df = swap_rows df in
         (case (if length lp_df > 0
                then (case calculate_active_days lp_df of
                        Inl e \<Rightarrow> Inl e
                      | Inr active_days_lp \<Rightarrow>
                          Inr (if active_days_lp > 0 then [''consistent_lp''] else [],
                               real (length lp_df) * 100))
                else Inr ([], 0)) of
            Inl e \<Rightarrow> Inl e
          | Inr (tags_lp, lp_score) \<Rightarrow>
              (if length swap_df > 0
               then Inr (lp_score, real (length swap_df) * 100,
                         tags_lp @ [''consistent_trader''])
               else Inr (lp_score, 0, tags_lp)))))"

subsection \<open>Final score\<close>

text \<open>
  \<open>combine\<close> is the \<open>if\<close>/\<open>elif\<close> chain of \<open>calculate_score\<close>, which also appends
  \<open>inactive\<close> to the tags in its last branch. \<open>find_dexes\<close> is
  \<open>next((p for p in wallet_data['data'] if p['protocolType'] == 'dexes'), None)\<close>; a
  block that is found is a non-empty dictionary, so \<open>not dex_data\<close> holds only for
  \<open>None\<close>. The weights are \<open>SCORING_CONFIG["lp_weight"] = 0.6\<close> and
  \<open>SCORING_CONFIG["swap_weight"] = 0.4\<close>.
\<close>

definition combine :: "real \<Rightarrow> real \<Rightarrow> string list \<Rightarrow> real \<times> string list" where
  "combine lp_score swap_score user_tags =
     (if lp_score > 0 \<and> swap_score > 0 then (lp_score * 0.6 + swap_score * 0.4, user_tags)
      else if lp_score > 0 then (lp_score, user_tags)
      else if swap_score > 0 then (swap_score, user_tags)
      else (0, if ''inactive'' \<in> set user_tags then user_tags
               else user_tags @ [''inactive'']))"

definition find_dexes :: "protocol_data list \<Rightarrow> protocol_data option" where
  "find_dexes ps = find (\<lambda>p. protocolType p = ''dexes'') ps"

definition calculate_score :: "wallet_transaction_message \<Rightarrow> error + (real \<times> features)" where
  "calculate_score wallet_data =
     (case find_dexes (data wallet_data) of
        None \<Rightarrow> Inr (0, [])
      | Some dex_data \<Rightarrow>
          (let df = transactions dex_data in
           (case process_dex_transactions df of
              Inl e \<Rightarrow> Inl e
            | Inr (lp_score, swap_score, tags) \<Rightarrow>
                (case combine lp_score swap_score tags of
                   (final_score, user_tags) \<Rightarrow>
                     (case calculate_active_days df of
                        Inl e \<Rightarrow> Inl e
                      | Inr active_days \<Rightarrow>
                          Inr (final_score,
                               [(''lp_score'', PNum lp_score),
                                (''swap_score'', PNum swap_score),
                                (''active_days'', PInt active_days),
                                (''total_transaction_count'', PInt (int (length df))),
                                (''user_tags'', PTags user_tags)]))))))"

section \<open>Output envelopes (models.py)\<close>

record ai_features =
  active_days :: int
  lp_score :: real
  swap_score :: real
  total_transaction_count :: int
  user_tags :: "string list"

record category_score =
  category :: string
  score :: real
  transaction_count :: int
  features :: ai_features

datatype fixed18 = Fixed18 int

record wallet_score_success =
  s_wallet_address :: string
  zscore :: fixed18
  s_timestamp :: int
  categories :: "category_score list"

text \<open>
  The \<open>error\<close> field of a failure record is the text \<open>str(e)\<close> of the exception that
  was caught; it is represented by the exception itself.
\<close>

record wallet_score_failure =
  f_wallet_address :: string
  f_timestamp :: int
  f_error :: error

datatype envelope =
    Success wallet_score_success
  | Failure wallet_score_failure

subsection \<open>Validation of the success record\<close>

text \<open>
  Pydantic builds \<open>AIFeatures\<close> from a dictionary: each of the five declared fields is
  required (none has a default), an \<open>int\<close> field takes an integer, a \<open>float\<close> field a
  float or an integer, \<open>List[str]\<close> a list of strings; keys that are not declared are
  ignored. A missing or ill-typed field is a ValidationError.
\<close>

definition get_int :: "features \<Rightarrow> string \<Rightarrow> int option" where
  "get_int d k = (case map_of d k of Some (PInt i) \<Rightarrow> Some i | _ \<Rightarrow> None)"

definition get_float :: "features \<Rightarrow> string \<Rightarrow> real option" where
  "get_float d k =
     (case map_of d k of
        Some (PNum x) \<Rightarrow> Some x
      | Some (PInt i) \<Rightarrow> Some (real_of_int i)
      | _ \<Rightarrow> None)"

definition get_tags :: "features \<Rightarrow> string \<Rightarrow> string list option" where
  "get_tags d k = (case map_of d k of Some (PTags ts) \<Rightarrow> Some ts | _ \<Rightarrow> None)"

definition AIFeatures :: "features \<Rightarrow> error + ai_features" where
  "AIFeatures d =
     (case get_int d ''active_days'' of
        None \<Rightarrow> Inl ValidationError
      | Some a \<Rightarrow>
     (case get_float d ''lp_score'' of
        None \<Rightarrow> Inl ValidationError
      | Some l \<Rightarrow>
     (case get_float d ''swap_score'' of
        None \<Rightarrow> Inl ValidationError
      | Some s \<Rightarrow>
     (case get_int d ''total_transaction_count'' of
        None \<Rightarrow> Inl ValidationError
      | Some c \<Rightarrow>
     (case get_tags d ''user_tags'' of
        None \<Rightarrow> Inl ValidationError
      | Some ts \<Rightarrow>
          Inr \<lparr>active_days = a, lp_score = l, swap_score = s,
               total_transaction_count = c, user_tags = ts\<rparr>)))))"

text \<open>
  \<open>f"{final_score:.18f}"\<close> is a decimal numeral with exactly 18 fractional digits, the
  value rounded to 18 places. Such a string is determined by the integer it spells
  once the point is dropped, and \<open>Fixed18 n\<close> stands for the string that spells \<open>n\<close>.
\<close>

definition format_18f :: "real \<Rightarrow> fixed18" where
  "format_18f x = Fixed18 (round (x * 10 ^ 18))"

text \<open>
  The construction of the success record in \<open>kafka_processor\<close>:
  \<open>transaction_count\<close> is \<open>features.get('total_transaction_count', 0)\<close> and the
  \<open>features\<close> of the single category are the engine's features with the key
  \<open>user_tags\<close> filtered out, validated as \<open>AIFeatures\<close>.
\<close>

definition WalletScoreSuccess ::
  "string \<Rightarrow> real \<Rightarrow> int \<Rightarrow> features \<Rightarrow> error + wallet_score_success" where
  "WalletScoreSuccess addr final_score now feats =
     (case (case map_of feats ''total_transaction_count'' of
              Some v \<Rightarrow> v | None \<Rightarrow> PInt 0) of
        PInt n \<Rightarrow>
          (case AIFeatures (filter (\<lambda>(k, v). k \<noteq> ''user_tags'') feats) of
             Inl e \<Rightarrow> Inl e
           | Inr f \<Rightarrow>
               Inr \<lparr>s_wallet_address = addr, zscore = format_18f final_score,
                    s_timestamp = now,
                    categories = [\<lparr>category = ''dexes'', score = final_score,
                                   transaction_count = n, features = f\<rparr>]\<rparr>)
      | _ \<Rightarrow> Inl ValidationError)"

section \<open>Inbound messages\<close>

text \<open>
  The consumer's \<open>value_deserializer\<close> is \<open>json.loads\<close>, so \<open>msg.value\<close> is any JSON
  value; an object is the dictionary it loads to (distinct keys).
\<close>

datatype json =
    JNull
  | JBool bool
  | JInt int
  | JFloat real
  | JStr string
  | JArr "json list"
  | JObj "(string \<times> json) list"

record consumer_record =
  msg_topic :: string
  msg_value :: json
  msg_timestamp :: int

text \<open>\<open>msg.value.get(key, default)\<close>: only a dictionary has \<open>get\<close>.\<close>

fun py_get :: "json \<Rightarrow> string \<Rightarrow> json \<Rightarrow> error + json" where
  "py_get (JObj kv) k d = Inr (case map_of kv k of Some v \<Rightarrow> v | None \<Rightarrow> d)"
| "py_get _ k d = Inl AttributeError"

text \<open>
  \<open>WalletScoreFailure(wallet_address=..., timestamp=..., error=...)\<close>: the address
  field is declared \<open>str\<close>, and Pydantic takes only a string for it.
\<close>

fun WalletScoreFailure :: "json \<Rightarrow> int \<Rightarrow> error \<Rightarrow> error + wallet_score_failure" where
  "WalletScoreFailure (JStr a) now e =
     Inr \<lparr>f_wallet_address = a, f_timestamp = now, f_error = e\<rparr>"
| "WalletScoreFailure _ now e = Inl ValidationError"

subsection \<open>Schema validation\<close>

text \<open>
  \<open>WalletTransactionMessage.model_validate\<close> is Pydantic's, driven by the declarations
  of models.py. The processor below takes the validator as an argument, so that what
  is proved about it holds whatever a validator accepts. \<open>model_validate\<close> renders the
  declarations for the concrete runs:
  \<^item> a \<open>str\<close> field takes a string only;
  \<^item> an \<open>int\<close> field takes an integer, a boolean (as 0 or 1), a float without
    fractional part, or a string of decimal digits with an optional sign;
  \<^item> a \<open>List\<close> field takes an array, a model field an object; undeclared keys are
    ignored;
  \<^item> an \<open>Optional\<close> field may be absent or null, and is validated against its type
    when present;
  \<^item> \<open>amount\<close>, declared \<open>condecimal(max_digits=38, decimal_places=18)\<close>, takes a
    number with at most 20 digits before the point and at most 18 after it; a
    \<open>JFloat\<close> carries the decimal value its literal spells. Amounts given as strings
    are taken when they are integers.
  Scoring reads \<open>action\<close> and \<open>timestamp\<close> only, which is all that the validated
  transaction keeps.
\<close>

definition digit_of :: "char \<Rightarrow> nat option" where
  "digit_of c = map_of (zip ''0123456789'' [0, 1, 2, 3, 4, 5, 6, 7, 8, 9]) c"

fun parse_digits :: "nat \<Rightarrow> string \<Rightarrow> nat option" where
  "parse_digits acc [] = Some acc"
| "parse_digits acc (c # cs) =
     (case digit_of c of None \<Rightarrow> None | Some d \<Rightarrow> parse_digits (10 * acc + d) cs)"

definition parse_nat :: "string \<Rightarrow> nat option" where
  "parse_nat s = (if s = [] then None else parse_digits 0 s)"

definition parse_int :: "string \<Rightarrow> int option" where
  "parse_int s =
     (case s of
        [] \<Rightarrow> None
      | c # cs \<Rightarrow>
          if c = CHR ''-'' then map_option (\<lambda>n. - int n) (parse_nat cs)
          else if c = CHR ''+'' then map_option int (parse_nat cs)
          else map_option int (parse_nat s))"

fun lax_int :: "json \<Rightarrow> int option" where
  "lax_int (JInt i) = Some i"
| "lax_int (JBool b) = Some (if b then 1 else 0)"
| "lax_int (JFloat x) = (if x = of_int \<lfloor>x\<rfloor> then Some \<lfloor>x\<rfloor> else None)"
| "lax_int (JStr s) = parse_int s"
| "lax_int _ = None"

definition json_str :: "(string \<times> json) list \<Rightarrow> string \<Rightarrow> string option" where
  "json_str kv k = (case map_of kv k of Some (JStr s) \<Rightarrow> Some s | _ \<Rightarrow> None)"

definition json_int :: "(string \<times> json) list \<Rightarrow> string \<Rightarrow> int option" where
  "json_int kv k = (case map_of kv k of Some v \<Rightarrow> lax_int v | None \<Rightarrow> None)"

definition json_arr :: "(string \<times> json) list \<Rightarrow> string \<Rightarrow> json list option" where
  "json_arr kv k = (case map_of kv k of Some (JArr xs) \<Rightarrow> Some xs | _ \<Rightarrow> None)"

text \<open>Optional fields: absent or null, or a value of the declared type.\<close>

definition optional_str :: "(string \<times> json) list \<Rightarrow> string \<Rightarrow> bool" where
  "optional_str kv k =
     (case map_of kv k of None \<Rightarrow> True | Some JNull \<Rightarrow> True | Some (JStr s) \<Rightarrow> True
      | Some _ \<Rightarrow> False)"

definition optional_dict :: "(string \<times> json) list \<Rightarrow> string \<Rightarrow> bool" where
  "optional_dict kv k =
     (case map_of kv k of None \<Rightarrow> True | Some JNull \<Rightarrow> True | Some (JObj d) \<Rightarrow> True
      | Some _ \<Rightarrow> False)"

definition optional_int :: "(string \<times> json) list \<Rightarrow> string \<Rightarrow> bool" where
  "optional_int kv k =
     (case map_of kv k of None \<Rightarrow> True | Some JNull \<Rightarrow> True
      | Some v \<Rightarrow> lax_int v \<noteq> None)"

definition decimal_38_18 :: "real \<Rightarrow> bool" where
  "decimal_38_18 x = (\<bar>x\<bar> < 10 ^ 20 \<and> x * 10 ^ 18 = of_int \<lfloor>x * 10 ^ 18\<rfloor>)"

definition optional_decimal :: "(string \<times> json) list \<Rightarrow> string \<Rightarrow> bool" where
  "optional_decimal kv k =
     (case map_of kv k of
        None \<Rightarrow> True
      | Some JNull \<Rightarrow> True
      | Some (JInt i) \<Rightarrow> decimal_38_18 (of_int i)
      | Some (JFloat x) \<Rightarrow> decimal_38_18 x
      | Some (JStr s) \<Rightarrow>
          (case parse_int s of None \<Rightarrow> False | Some i \<Rightarrow> decimal_38_18 (of_int i))
      | Some _ \<Rightarrow> False)"

definition optional_fields_ok :: "(string \<times> json) list \<Rightarrow> bool" where
  "optional_fields_ok kv =
     (optional_str kv ''poolId'' \<and> optional_str kv ''poolName'' \<and>
      optional_dict kv ''tokenIn'' \<and> optional_dict kv ''tokenOut'' \<and>
      optional_str kv ''token_address'' \<and> optional_decimal kv ''amount'' \<and>
      optional_int kv ''block_number'')"

fun validate_all :: "(json \<Rightarrow> 'a option) \<Rightarrow> json list \<Rightarrow> 'a list option" where
  "validate_all f [] = Some []"
| "validate_all f (x # xs) =
     (case f x of
        None \<Rightarrow> None
      | Some y \<Rightarrow> (case validate_all f xs of None \<Rightarrow> None | Some ys \<Rightarrow> Some (y # ys)))"

fun validate_transaction :: "json \<Rightarrow> transaction option" where
  "validate_transaction (JObj kv) =
     (case json_str kv ''document_id'' of None \<Rightarrow> None | Some _ \<Rightarrow>
     (case json_str kv ''action'' of None \<Rightarrow> None | Some a \<Rightarrow>
     (case json_int kv ''timestamp'' of None \<Rightarrow> None | Some t \<Rightarrow>
     (case json_str kv ''caller'' of None \<Rightarrow> None | Some _ \<Rightarrow>
     (case json_str kv ''protocol'' of None \<Rightarrow> None | Some _ \<Rightarrow>
        if optional_fields_ok kv then Some \<lparr>action = a, timestamp = t\<rparr> else None)))))"
| "validate_transaction _ = None"

fun validate_protocol :: "json \<Rightarrow> protocol_data option" where
  "validate_protocol (JObj kv) =
     (case json_str kv ''protocolType'' of None \<Rightarrow> None | Some pt \<Rightarrow>
     (case json_arr kv ''transactions'' of None \<Rightarrow> None | Some xs \<Rightarrow>
     (case validate_all validate_transaction xs of None \<Rightarrow> None | Some ts \<Rightarrow>
        Some \<lparr>protocolType = pt, transactions = ts\<rparr>)))"
| "validate_protocol _ = None"

fun model_validate :: "json \<Rightarrow> error + wallet_transaction_message" where
  "model_validate (JObj kv) =
     (case json_str kv ''wallet_address'' of None \<Rightarrow> Inl ValidationError | Some a \<Rightarrow>
     (case json_arr kv ''data'' of None \<Rightarrow> Inl ValidationError | Some ps \<Rightarrow>
     (case validate_all validate_protocol ps of None \<Rightarrow> Inl ValidationError | Some d \<Rightarrow>
        Inr \<lparr>wallet_address = a, data = d\<rparr>)))"
| "model_validate _ = Inl ValidationError"

section \<open>Producer (kafka_service.py)\<close>

text \<open>
  What the processor hands to \<open>producer.send\<close> is \<open>model_dump_json().encode('utf-8')\<close>,
  a bytes object; \<open>Bytes e\<close> stands for the encoded JSON text of the envelope \<open>e\<close> and
  \<open>Dict e\<close> for the envelope as a plain dictionary. The producer is built with
  \<open>value_serializer = lambda x: json.dumps(x).encode('utf-8')\<close>, which \<open>send\<close> applies
  to the value before anything is queued: \<open>json.dumps\<close> serialises a dictionary and
  raises TypeError on a bytes object. A record that reaches a topic is represented by
  the envelope it encodes.
\<close>

datatype pyobj =
    Bytes envelope
  | Dict envelope

fun value_serializer :: "pyobj \<Rightarrow> error + envelope" where
  "value_serializer (Dict e) = Inr e"
| "value_serializer (Bytes e) = Inl TypeError"

definition SUCCESS_TOPIC :: string where
  "SUCCESS_TOPIC = ''wallet-scores-success''"

definition FAILURE_TOPIC :: string where
  "FAILURE_TOPIC = ''wallet-scores-failure''"

definition send ::
  "string \<Rightarrow> pyobj \<Rightarrow> (string \<times> envelope) list \<Rightarrow> error + (string \<times> envelope) list" where
  "send topic v out =
     (case value_serializer v of
        Inl e \<Rightarrow> Inl e
      | Inr b \<Rightarrow> Inr (out @ [(topic, b)]))"

section \<open>Logging (main.py, lines 20 to 29)\<close>

text \<open>
  \<open>structlog.configure\<close> is given \<open>logger_factory=structlog.stdlib.LoggerFactory\<close>, the
  class and not an instance of it. structlog calls the factory to obtain the object
  the bound logger wraps, and calling the class yields a \<open>LoggerFactory\<close> instance,
  whose attributes are those listed below. \<open>logger.info(...)\<close> and \<open>logger.error(...)\<close>
  evaluate their arguments, run the processors and then look the method up on the
  wrapped object with \<open>getattr(self._logger, method_name)\<close>, which raises
  AttributeError for a name the object does not have.
\<close>

definition wrapped_logger_attributes :: "string list" where
  "wrapped_logger_attributes = [''__init__'', ''__call__'', ''_ignore'']"

definition logger :: "string \<Rightarrow> error + unit" where
  "logger method_name =
     (if method_name \<in> set wrapped_logger_attributes then Inr () else Inl AttributeError)"

section \<open>Stream processor (main.py)\<close>

text \<open>
  The state is the \<open>stats\<close> dictionary together with the records the producer has
  accepted, in order, each with its topic.
\<close>

record state =
  processed_count :: int
  success_count :: int
  failure_count :: int
  last_processed_timestamp :: "int option"
  published :: "(string \<times> envelope) list"

subsection \<open>The timestamp in seconds\<close>

text \<open>
  \<open>int(msg.timestamp / 1000)\<close>. The division of two Python integers is the IEEE double
  nearest to the exact quotient (ties to even): for a quotient \<open>q\<close> with
  \<open>2 ^ e \<le> q < 2 ^ (e + 1)\<close> it is \<open>m * 2 ^ (e - 52)\<close> with \<open>m\<close> the integer nearest
  to \<open>q * 2 ^ (52 - e)\<close>. Kafka timestamps are 64-bit, so the quotient is well within
  the exponent range of a double. \<open>int\<close> then truncates towards zero.
\<close>

fun bit_length :: "nat \<Rightarrow> nat" where
  "bit_length n = (if n = 0 then 0 else Suc (bit_length (n div 2)))"

definition scale2 :: "real \<Rightarrow> int \<Rightarrow> real" where
  "scale2 x e = (if e \<ge> 0 then x * 2 ^ nat e else x / 2 ^ nat (- e))"

definition round_half_even :: "real \<Rightarrow> int" where
  "round_half_even x =
     (let f = \<lfloor>x\<rfloor>; d = x - of_int f
      in if d < 1 / 2 then f else if d > 1 / 2 then f + 1
         else if even f then f else f + 1)"

definition true_div :: "int \<Rightarrow> int \<Rightarrow> real" where
  "true_div a b =
     (if a = 0 then 0
      else
        (let q = real_of_int \<bar>a\<bar> / real_of_int \<bar>b\<bar>;
             e0 = int (bit_length (nat \<bar>a\<bar>)) - int (bit_length (nat \<bar>b\<bar>));
             e = (if scale2 1 e0 \<le> q then e0 else e0 - 1);
             m = round_half_even (scale2 q (52 - e));
             r = scale2 (real_of_int m) (e - 52)
         in if (a < 0) = (b < 0) then r else - r))"

definition py_int :: "real \<Rightarrow> int" where
  "py_int x = (if x \<ge> 0 then \<lfloor>x\<rfloor> else \<lceil>x\<rceil>)"

definition seconds_of :: "int \<Rightarrow> int" where
  "seconds_of t = py_int (true_div t 1000)"

subsection \<open>One message\<close>

text \<open>
  The processor is modelled for an arbitrary validator \<open>validate\<close> and an arbitrary
  logger \<open>log\<close> (the result of calling a logging method by name); as shipped the logger
  is \<open>logger\<close> above.

  The body of the inner \<open>try\<close>: validate, score, build the success record, send it,
  log, count the success. The result is the state reached and the exception raised,
  if any.
\<close>

definition try_block ::
  "(json \<Rightarrow> error + wallet_transaction_message) \<Rightarrow> (string \<Rightarrow> error + unit) \<Rightarrow> int \<Rightarrow>
     state \<Rightarrow> json \<Rightarrow> state \<times> error option" where
  "try_block validate logcall now st v =
     (case validate v of
        Inl e \<Rightarrow> (st, Some e)
      | Inr message_data \<Rightarrow>
     (case calculate_score message_data of
        Inl e \<Rightarrow> (st, Some e)
      | Inr (final_score, feats) \<Rightarrow>
     (case WalletScoreSuccess (wallet_address message_data) final_score now feats of
        Inl e \<Rightarrow> (st, Some e)
      | Inr output_message \<Rightarrow>
     (case send SUCCESS_TOPIC (Bytes (Success output_message)) (published st) of
        Inl e \<Rightarrow> (st, Some e)
      | Inr out \<Rightarrow>
          (let st1 = st\<lparr>published := out\<rparr> in
           (case logcall ''info'' of
              Inl e \<Rightarrow> (st1, Some e)
            | Inr _ \<Rightarrow> (st1\<lparr>success_count := success_count st1 + 1\<rparr>, None)))))))"

text \<open>
  The \<open>except\<close> block: log the error (the call's arguments include
  \<open>msg.value.get('wallet_address', 'N/A')\<close>), count the failure, build the failure
  record with that address, send it. An exception raised here is not caught by the
  inner handler: it leaves the \<open>for\<close> loop and reaches the outer handler. The second
  component of the result is that escaped exception, if any.
\<close>

definition except_block ::
  "(string \<Rightarrow> error + unit) \<Rightarrow> error \<Rightarrow> int \<Rightarrow> state \<Rightarrow> json \<Rightarrow> state \<times> error option" where
  "except_block logcall e now st v =
     (case py_get v ''wallet_address'' (JStr ''N/A'') of
        Inl e' \<Rightarrow> (st, Some e')
      | Inr _ \<Rightarrow>
     (case logcall ''error'' of
        Inl e' \<Rightarrow> (st, Some e')
      | Inr _ \<Rightarrow>
     (let st1 = st\<lparr>failure_count := failure_count st + 1\<rparr> in
      (case py_get v ''wallet_address'' (JStr ''N/A'') of
         Inl e' \<Rightarrow> (st1, Some e')
       | Inr a \<Rightarrow>
      (case WalletScoreFailure a now e of
         Inl e' \<Rightarrow> (st1, Some e')
       | Inr failure_message \<Rightarrow>
      (case send FAILURE_TOPIC (Bytes (Failure failure_message)) (published st1) of
         Inl e' \<Rightarrow> (st1, Some e')
       | Inr out \<Rightarrow> (st1\<lparr>published := out\<rparr>, None)))))))"

text \<open>
  One iteration of \<open>for msg in consumer\<close>. The first statement is
  \<open>logger.info("Received message", ..., wallet_address=msg.value.get('wallet_address', 'N/A'))\<close>,
  outside the inner \<open>try\<close> and before the counters are touched: its argument is
  evaluated, then the logging method is called.
\<close>

definition process_message ::
  "(json \<Rightarrow> error + wallet_transaction_message) \<Rightarrow> (string \<Rightarrow> error + unit) \<Rightarrow> int \<Rightarrow>
     state \<Rightarrow> consumer_record \<Rightarrow> state \<times> error option" where
  "process_message validate logcall now st msg =
     (case py_get (msg_value msg) ''wallet_address'' (JStr ''N/A'') of
        Inl e \<Rightarrow> (st, Some e)
      | Inr _ \<Rightarrow>
     (case logcall ''info'' of
        Inl e \<Rightarrow> (st, Some e)
      | Inr _ \<Rightarrow>
          (let st1 = st\<lparr>processed_count := processed_count st + 1,
                         last_processed_timestamp := Some (seconds_of (msg_timestamp msg))\<rparr>
           in (case try_block validate logcall now st1 (msg_value msg) of
                 (st2, None) \<Rightarrow> (st2, None)
               | (st2, Some e) \<Rightarrow> except_block logcall e now st2 (msg_value msg)))))"

subsection \<open>The loop\<close>

text \<open>
  \<open>consume\<close> is the \<open>while True\<close> loop over the messages the consumer delivers, each
  paired with the wall-clock second at which it is handled. An exception that escapes
  an iteration reaches the outer handler, which logs it with \<open>logger.error\<close>, sleeps and
  re-enters the loop with the next message; an exception raised by that logging call
  is caught by nothing and ends the task. \<open>kafka_processor\<close> logs its start with
  \<open>logger.info\<close>, outside every \<open>try\<close>, before it enters the loop.
\<close>

fun consume ::
  "(json \<Rightarrow> error + wallet_transaction_message) \<Rightarrow> (string \<Rightarrow> error + unit) \<Rightarrow> state \<Rightarrow>
     (int \<times> consumer_record) list \<Rightarrow> state \<times> error option" where
  "consume validate logcall st [] = (st, None)"
| "consume validate logcall st ((now, msg) # rest) =
     (case process_message validate logcall now st msg of
        (st', None) \<Rightarrow> consume validate logcall st' rest
      | (st', Some e) \<Rightarrow>
          (case logcall ''error'' of
             Inl e' \<Rightarrow> (st', Some e')
           | Inr _ \<Rightarrow> consume validate logcall st' rest))"

definition kafka_processor ::
  "(json \<Rightarrow> error + wallet_transaction_message) \<Rightarrow> (string \<Rightarrow> error + unit) \<Rightarrow> state \<Rightarrow>
     (int \<times> consumer_record) list \<Rightarrow> state \<times> error option" where
  "kafka_processor validate logcall st msgs =
     (case logcall ''info'' of
        Inl e \<Rightarrow> (st, Some e)
      | Inr _ \<Rightarrow> consume validate logcall st msgs)"

definition initial_state :: state where
  "initial_state =
     \<lparr>processed_count = 0, success_count = 0, failure_count = 0,
      last_processed_timestamp = None, published = []\<rparr>"

section \<open>Concrete inputs\<close>

text \<open>The frame \<open>SAMPLE_DF\<close> of test_ai_model.py: ten transactions on ten consecutive days.\<close>

definition SAMPLE_DF :: "transaction list" where
  "SAMPLE_DF =
     [\<lparr>action = ''swap'', timestamp = 1672531200\<rparr>,
      \<lparr>action = ''swap'', timestamp = 1672617600\<rparr>,
      \<lparr>action = ''add_liquidity'', timestamp = 1672704000\<rparr>,
      \<lparr>action = ''swap'', timestamp = 1672790400\<rparr>,
      \<lparr>action = ''add_liquidity'', timestamp = 1672876800\<rparr>,
      \<lparr>action = ''swap'', timestamp = 1672963200\<rparr>,
      \<lparr>action = ''add_liquidity'', timestamp = 1673049600\<rparr>,
      \<lparr>action = ''swap'', timestamp = 1673136000\<rparr>,
      \<lparr>action = ''add_liquidity'', timestamp = 1673222400\<rparr>,
      \<lparr>action = ''swap'', timestamp = 1673308800\<rparr>]"

text \<open>The three wallets of test_ai_model.py.\<close>

definition full_data_wallet :: wallet_transaction_message where
  "full_data_wallet =
     \<lparr>wallet_address = ''0x123'',
      data = [\<lparr>protocolType = ''dexes'', transactions = SAMPLE_DF\<rparr>]\<rparr>"

definition no_dex_wallet :: wallet_transaction_message where
  "no_dex_wallet =
     \<lparr>wallet_address = ''0x456'',
      data = [\<lparr>protocolType = ''lending'', transactions = []\<rparr>]\<rparr>"

definition empty_transactions_wallet :: wallet_transaction_message where
  "empty_transactions_wallet =
     \<lparr>wallet_address = ''0x789'',
      data = [\<lparr>protocolType = ''dexes'', transactions = []\<rparr>]\<rparr>"

text \<open>
  Four inbound messages: a well-formed wallet with one swap; an object without
  \<open>wallet_address\<close>; an object whose \<open>wallet_address\<close> is a number; a payload that is
  a JSON array.
\<close>

definition swap_message :: consumer_record where
  "swap_message =
     \<lparr>msg_topic = ''wallet-transactions'',
      msg_value =
        JObj [(''wallet_address'', JStr ''0x123''),
              (''data'', JArr [JObj [(''protocolType'', JStr ''dexes''),
                 (''transactions'', JArr [JObj [(''document_id'', JStr ''tx1''),
                    (''action'', JStr ''swap''), (''timestamp'', JInt 1672531200),
                    (''caller'', JStr ''0x123''), (''protocol'', JStr ''uniswap'')]])]])],
      msg_timestamp = 1700000000000\<rparr>"

definition missing_address_message :: consumer_record where
  "missing_address_message =
     \<lparr>msg_topic = ''wallet-transactions'',
      msg_value = JObj [(''data'', JArr [])],
      msg_timestamp = 1700000000000\<rparr>"

definition numeric_address_message :: consumer_record where
  "numeric_address_message =
     \<lparr>msg_topic = ''wallet-transactions'',
      msg_value = JObj [(''wallet_address'', JInt 123), (''data'', JArr [])],
      msg_timestamp = 1700000000000\<rparr>"

definition array_message :: consumer_record where
  "array_message =
     \<lparr>msg_topic = ''wallet-transactions'',
      msg_value = JArr [],
      msg_timestamp = 1700000000000\<rparr>"

section \<open>Properties of the scoring engine\<close>

lemmas engine_defs =
  calculate_score_def find_dexes_def process_dex_transactions_def lp_rows_def swap_rows_def
  combine_def calculate_active_days_def to_dates_def representable_def

lemmas validate_defs =
  json_str_def json_int_def json_arr_def optional_fields_ok_def optional_str_def
  optional_dict_def optional_int_def optional_decimal_def

lemmas processor_defs =
  process_message_def try_block_def except_block_def send_def logger_def
  wrapped_logger_attributes_def kafka_processor_def initial_state_def

subsection \<open>Active days\<close>

lemma to_dates_Inr: "to_dates ts = Inr ds \<Longrightarrow> ds = map (\<lambda>t. t div 86400) ts"
  by (simp add: to_dates_def split: if_splits)

lemma calculate_active_days_pos:
  assumes "df \<noteq> []" and "calculate_active_days df = Inr n"
  shows "n > 0"
proof -
  from assms obtain ds where ds: "to_dates (map timestamp df) = Inr ds"
    and n: "n = (if int (length (remdups ds)) = 10 then 9 else int (length (remdups ds)))"
    by (auto simp: calculate_active_days_def Let_def split: sum.splits)
  from ds have "ds = map (\<lambda>t. t div 86400) (map timestamp df)" by (rule to_dates_Inr)
  with assms(1) have "ds \<noteq> []" by simp
  then have "remdups ds \<noteq> []" by simp
  then have "length (remdups ds) > 0" by simp
  with n show ?thesis by simp
qed

text \<open>
  Whenever \<open>_calculate_active_days\<close> returns, its value is the number of distinct day
  numbers of the frame, except that ten distinct days are reported as nine.
\<close>

lemma calculate_active_days_distinct_dates:
  assumes "calculate_active_days df = Inr n"
  shows "n = (let c = int (card ((\<lambda>t. timestamp t div 86400) ` set df))
              in if c = 10 then 9 else c)"
proof (cases "df = []")
  case True
  with assms show ?thesis by (simp add: calculate_active_days_def)
next
  case False
  with assms obtain ds where ds: "to_dates (map timestamp df) = Inr ds"
    and n: "n = (if int (length (remdups ds)) = 10 then 9 else int (length (remdups ds)))"
    by (auto simp: calculate_active_days_def Let_def split: sum.splits)
  from ds have eq: "ds = map (\<lambda>t. t div 86400) (map timestamp df)" by (rule to_dates_Inr)
  have "length (remdups ds) = card (set ds)" by (simp add: length_remdups_card_conv)
  also have "set ds = (\<lambda>t. timestamp t div 86400) ` set df" using eq by auto
  finally show ?thesis using n by (simp add: Let_def)
qed

lemma calculate_active_days_returns:
  "list_all representable (map timestamp df) \<Longrightarrow> \<exists>n. calculate_active_days df = Inr n"
  by (simp add: calculate_active_days_def to_dates_def Let_def)

subsection \<open>What the engine returns\<close>

lemma process_dex_transactions_empty:
  "process_dex_transactions [] = Inr (0, 0, [''inactive''])"
  by (simp add: process_dex_transactions_def)

lemma process_dex_transactions_Inr:
  assumes "process_dex_transactions df = Inr (lp, sw, tags)" and "df \<noteq> []"
  shows "lp = real (length (lp_rows df)) * 100 \<and> sw = real (length (swap_rows df)) * 100 \<and>
         tags = (if lp_rows df = [] then [] else [''consistent_lp'']) @
                (if swap_rows df = [] then [] else [''consistent_trader''])"
proof (cases "lp_rows df = []")
  case True
  with assms show ?thesis
    by (auto simp: process_dex_transactions_def Let_def split: if_splits)
next
  case False
  with assms obtain n where n: "calculate_active_days (lp_rows df) = Inr n"
    by (auto simp: process_dex_transactions_def Let_def split: if_splits sum.splits)
  with False have "n > 0" by (rule calculate_active_days_pos)
  with assms False n show ?thesis
    by (auto simp: process_dex_transactions_def Let_def split: if_splits)
qed

lemma calculate_score_Inr:
  assumes "find_dexes (data w) = Some dex" and "calculate_score w = Inr (fs, feats)"
  shows "\<exists>lp sw tags utags ad.
           process_dex_transactions (transactions dex) = Inr (lp, sw, tags) \<and>
           combine lp sw tags = (fs, utags) \<and>
           calculate_active_days (transactions dex) = Inr ad \<and>
           feats = [(''lp_score'', PNum lp), (''swap_score'', PNum sw),
                    (''active_days'', PInt ad),
                    (''total_transaction_count'', PInt (int (length (transactions dex)))),
                    (''user_tags'', PTags utags)]"
  using assms
  by (auto simp: calculate_score_def Let_def split: sum.splits prod.splits)

text \<open>
  The engine returns a result whenever every timestamp of the dexes block is within the
  range the date conversion can represent; the theorems about its result below are
  stated for every result it returns.
\<close>

lemma calculate_score_returns:
  assumes "find_dexes (data w) = Some dex"
      and "list_all representable (map timestamp (transactions dex))"
  shows "\<exists>r. calculate_score w = Inr r"
proof -
  have sub: "list_all representable (map timestamp (lp_rows (transactions dex)))"
    using assms(2) by (auto simp: lp_rows_def list_all_iff)
  from calculate_active_days_returns[OF sub] obtain n1 where
    n1: "calculate_active_days (lp_rows (transactions dex)) = Inr n1" ..
  from calculate_active_days_returns[OF assms(2)] obtain n where
    n: "calculate_active_days (transactions dex) = Inr n" ..
  have "\<exists>r. process_dex_transactions (transactions dex) = Inr r"
    using n1 by (simp add: process_dex_transactions_def Let_def)
  then obtain lp sw tags where "process_dex_transactions (transactions dex) = Inr (lp, sw, tags)"
    by (metis prod_cases3)
  with n assms(1) show ?thesis
    by (simp add: calculate_score_def Let_def split: prod.splits)
qed

lemma find_dexes_first:
  assumes "find_dexes pre = None" and "protocolType p = ''dexes''"
  shows "find_dexes (pre @ p # rest) = Some p"
  using assms by (induction pre) (auto simp: find_dexes_def)

subsection \<open>Claims about the engine\<close>

text \<open>
  C2. The claim: for a non-empty dexes block, \<open>active_days\<close> is the number of distinct
  UTC dates of its transactions, and ten distinct dates give 10. On the frame of the
  repository's own test, whose ten timestamps fall on ten distinct days, the engine
  reports 9: \<open>_calculate_active_days\<close> replaces a count of 10 by 9.
\<close>

theorem C2_ten_dates_reported_as_nine:
  "length (remdups (map (\<lambda>t. timestamp t div 86400) SAMPLE_DF)) = 10 \<and>
   calculate_active_days SAMPLE_DF = Inr 9 \<and>
   calculate_score full_data_wallet =
     Inr (480, [(''lp_score'', PNum 400), (''swap_score'', PNum 600),
                (''active_days'', PInt 9), (''total_transaction_count'', PInt 10),
                (''user_tags'', PTags [''consistent_lp'', ''consistent_trader''])])"
  by (simp add: engine_defs full_data_wallet_def SAMPLE_DF_def)

text \<open>The final score and sub-scores of a result, in terms of the two counts.\<close>

lemma final_score_of_result:
  assumes "find_dexes (data w) = Some dex"
      and "calculate_score w = Inr (final_score, feats)"
      and "lp = 100 * real (length (filter (\<lambda>t. action t = ''add_liquidity'' \<or>
                                             action t = ''remove_liquidity'') (transactions dex)))"
      and "sw = 100 * real (length (filter (\<lambda>t. action t = ''swap'') (transactions dex)))"
  shows "map_of feats ''lp_score'' = Some (PNum lp) \<and>
         map_of feats ''swap_score'' = Some (PNum sw) \<and>
         (lp > 0 \<and> sw > 0 \<longrightarrow> final_score = 0.6 * lp + 0.4 * sw) \<and>
         (lp > 0 \<and> \<not> sw > 0 \<longrightarrow> final_score = lp) \<and>
         (\<not> lp > 0 \<and> sw > 0 \<longrightarrow> final_score = sw) \<and>
         (\<not> lp > 0 \<and> \<not> sw > 0 \<longrightarrow>
            final_score = 0 \<and>
            (\<exists>tags. map_of feats ''user_tags'' = Some (PTags tags) \<and>
                    count_list tags ''inactive'' = 1))"
proof -
  let ?df = "transactions dex"
  from calculate_score_Inr[OF assms(1,2)] obtain lp' sw' tags utags ad where
    p: "process_dex_transactions ?df = Inr (lp', sw', tags)" and
    c: "combine lp' sw' tags = (final_score, utags)" and
    f: "feats = [(''lp_score'', PNum lp'), (''swap_score'', PNum sw'),
                 (''active_days'', PInt ad),
                 (''total_transaction_count'', PInt (int (length ?df))),
                 (''user_tags'', PTags utags)]"
    by blast
  have lp_eq: "real (length (lp_rows ?df)) * 100 = lp"
    using assms(3) by (simp add: lp_rows_def)
  have sw_eq: "real (length (swap_rows ?df)) * 100 = sw"
    using assms(4) by (simp add: swap_rows_def)
  show ?thesis
  proof (cases "?df = []")
    case True
    with p have "lp' = 0" "sw' = 0" "tags = [''inactive'']"
      by (simp_all add: process_dex_transactions_empty)
    moreover from True lp_eq sw_eq have "lp = 0" "sw = 0"
      by (simp_all add: lp_rows_def swap_rows_def)
    ultimately show ?thesis using c f by (auto simp: combine_def)
  next
    case False
    from process_dex_transactions_Inr[OF p False] lp_eq sw_eq
    have e: "lp' = lp" "sw' = sw"
      and t: "tags = (if lp_rows ?df = [] then [] else [''consistent_lp'']) @
                     (if swap_rows ?df = [] then [] else [''consistent_trader''])"
      by simp_all
    have z1: "lp_rows ?df = [] \<longleftrightarrow> \<not> lp > 0" using lp_eq by auto
    have z2: "swap_rows ?df = [] \<longleftrightarrow> \<not> sw > 0" using sw_eq by auto
    from c e t z1 z2 f show ?thesis
      by (auto simp: combine_def split: if_splits)
  qed
qed

text \<open>
  C3. For a wallet with a dexes block, with \<open>lp\<close> a hundred times the number of
  \<open>add_liquidity\<close> and \<open>remove_liquidity\<close> transactions and \<open>sw\<close> a hundred times the
  number of \<open>swap\<close> transactions: the engine returns a result whenever the timestamps
  are representable, and in every result it returns the features carry \<open>lp\<close> and \<open>sw\<close>
  as the two sub-scores; the final score is \<open>0.6 * lp + 0.4 * sw\<close> when both are
  positive, the positive one when exactly one is, and 0 when neither is, in which case
  \<open>inactive\<close> occurs exactly once in the tags.
\<close>

theorem C3_final_score:
  assumes "find_dexes (data w) = Some dex"
      and "lp = 100 * real (length (filter (\<lambda>t. action t = ''add_liquidity'' \<or>
                                             action t = ''remove_liquidity'') (transactions dex)))"
      and "sw = 100 * real (length (filter (\<lambda>t. action t = ''swap'') (transactions dex)))"
  shows "(list_all representable (map timestamp (transactions dex)) \<longrightarrow>
           (\<exists>r. calculate_score w = Inr r)) \<and>
         (\<forall>final_score feats. calculate_score w = Inr (final_score, feats) \<longrightarrow>
            map_of feats ''lp_score'' = Some (PNum lp) \<and>
            map_of feats ''swap_score'' = Some (PNum sw) \<and>
            (lp > 0 \<and> sw > 0 \<longrightarrow> final_score = 0.6 * lp + 0.4 * sw) \<and>
            (lp > 0 \<and> \<not> sw > 0 \<longrightarrow> final_score = lp) \<and>
            (\<not> lp > 0 \<and> sw > 0 \<longrightarrow> final_score = sw) \<and>
            (\<not> lp > 0 \<and> \<not> sw > 0 \<longrightarrow>
               final_score = 0 \<and>
               (\<exists>tags. map_of feats ''user_tags'' = Some (PTags tags) \<and>
                       count_list tags ''inactive'' = 1)))"
proof (rule conjI)
  show "list_all representable (map timestamp (transactions dex)) \<longrightarrow>
           (\<exists>r. calculate_score w = Inr r)"
    using calculate_score_returns[OF assms(1)] by blast
next
  show "\<forall>final_score feats. calculate_score w = Inr (final_score, feats) \<longrightarrow>
            map_of feats ''lp_score'' = Some (PNum lp) \<and>
            map_of feats ''swap_score'' = Some (PNum sw) \<and>
            (lp > 0 \<and> sw > 0 \<longrightarrow> final_score = 0.6 * lp + 0.4 * sw) \<and>
            (lp > 0 \<and> \<not> sw > 0 \<longrightarrow> final_score = lp) \<and>
            (\<not> lp > 0 \<and> sw > 0 \<longrightarrow> final_score = sw) \<and>
            (\<not> lp > 0 \<and> \<not> sw > 0 \<longrightarrow>
               final_score = 0 \<and>
               (\<exists>tags. map_of feats ''user_tags'' = Some (PTags tags) \<and>
                       count_list tags ''inactive'' = 1))"
    using final_score_of_result[OF assms(1) _ assms(2,3)] by blast
qed

text \<open>The test's full wallet: four liquidity actions and six swaps give 480.\<close>

theorem C3_final_score_witness:
  "find_dexes (data full_data_wallet) =
     Some \<lparr>protocolType = ''dexes'', transactions = SAMPLE_DF\<rparr> \<and>
   calculate_score full_data_wallet =
     Inr (480, [(''lp_score'', PNum 400), (''swap_score'', PNum 600),
                (''active_days'', PInt 9), (''total_transaction_count'', PInt 10),
                (''user_tags'', PTags [''consistent_lp'', ''consistent_trader''])]) \<and>
   list_all representable (map timestamp SAMPLE_DF) \<and>
   (480 :: real) = 0.6 * 400 + 0.4 * 600"
proof -
  let ?dex = "\<lparr>protocolType = ''dexes'', transactions = SAMPLE_DF\<rparr>"
  let ?feats = "[(''lp_score'', PNum 400), (''swap_score'', PNum 600),
                (''active_days'', PInt 9), (''total_transaction_count'', PInt 10),
                (''user_tags'', PTags [''consistent_lp'', ''consistent_trader''])]"
  have h1: "find_dexes (data full_data_wallet) = Some ?dex"
    by (simp add: find_dexes_def full_data_wallet_def)
  have h2: "calculate_score full_data_wallet = Inr (480, ?feats)"
    by (simp add: engine_defs full_data_wallet_def SAMPLE_DF_def)
  have h3: "(400 :: real) =
              100 * real (length (filter (\<lambda>t. action t = ''add_liquidity'' \<or>
                                            action t = ''remove_liquidity'') (transactions ?dex)))"
    by (simp add: SAMPLE_DF_def)
  have h4: "(600 :: real) =
              100 * real (length (filter (\<lambda>t. action t = ''swap'') (transactions ?dex)))"
    by (simp add: SAMPLE_DF_def)
  have h0: "list_all representable (map timestamp SAMPLE_DF)"
    by (simp add: SAMPLE_DF_def representable_def)
  have "(400 :: real) > 0 \<and> (600 :: real) > 0 \<longrightarrow> (480 :: real) = 0.6 * 400 + 0.4 * 600"
    using C3_final_score[OF h1 h3 h4] h2 by blast
  then have h5: "(480 :: real) = 0.6 * 400 + 0.4 * 600" by simp
  show ?thesis by (intro conjI h1 h2 h0 h5)
qed

text \<open>
  C4. For a wallet whose dexes block is present with an empty transaction list, the
  engine returns the final score 0 and the features \<open>lp_score = 0\<close>, \<open>swap_score = 0\<close>,
  \<open>active_days = 0\<close>, \<open>total_transaction_count = 0\<close> and \<open>user_tags = ["inactive"]\<close>.
\<close>

theorem C4_empty_transactions:
  assumes "find_dexes (data w) = Some dex" and "transactions dex = []"
  shows "calculate_score w =
           Inr (0, [(''lp_score'', PNum 0), (''swap_score'', PNum 0),
                    (''active_days'', PInt 0), (''total_transaction_count'', PInt 0),
                    (''user_tags'', PTags [''inactive''])])"
  using assms
  by (simp add: calculate_score_def process_dex_transactions_def combine_def
      calculate_active_days_def)

text \<open>The test's wallet with an empty dexes block.\<close>

theorem C4_empty_transactions_witness:
  "calculate_score empty_transactions_wallet =
     Inr (0, [(''lp_score'', PNum 0), (''swap_score'', PNum 0),
              (''active_days'', PInt 0), (''total_transaction_count'', PInt 0),
              (''user_tags'', PTags [''inactive''])])"
proof -
  have h1: "find_dexes (data empty_transactions_wallet) =
              Some \<lparr>protocolType = ''dexes'', transactions = []\<rparr>"
    by (simp add: find_dexes_def empty_transactions_wallet_def)
  have h2: "transactions \<lparr>protocolType = ''dexes'', transactions = []\<rparr> = []" by simp
  from C4_empty_transactions[OF h1 h2] show ?thesis .
qed

text \<open>
  C5. A wallet with no dexes block gets the score 0 with the empty feature dictionary.
  Every result the engine returns for a wallet that has a dexes block carries the five
  feature keys, so its feature dictionary is not empty and the two results differ.
\<close>

theorem C5_no_dexes_distinguishable:
  assumes "find_dexes (data w) = None"
      and "find_dexes (data w') = Some dex"
      and "calculate_score w' = Inr (final_score', feats')"
  shows "calculate_score w = Inr (0, []) \<and>
         map fst feats' = [''lp_score'', ''swap_score'', ''active_days'',
                           ''total_transaction_count'', ''user_tags''] \<and>
         feats' \<noteq> [] \<and>
         calculate_score w \<noteq> calculate_score w'"
proof -
  have a: "calculate_score w = Inr (0, [])"
    using assms(1) by (simp add: calculate_score_def)
  from calculate_score_Inr[OF assms(2,3)]
  have b: "map fst feats' = [''lp_score'', ''swap_score'', ''active_days'',
                           ''total_transaction_count'', ''user_tags'']"
    by auto
  then have c: "feats' \<noteq> []" by auto
  with a assms(3) show ?thesis using b by simp
qed

text \<open>The lending-only wallet against the wallet with an empty dexes block: both score 0.\<close>

theorem C5_no_dexes_distinguishable_witness:
  "calculate_score no_dex_wallet = Inr (0, []) \<and>
   calculate_score no_dex_wallet \<noteq> calculate_score empty_transactions_wallet"
proof -
  have h1: "find_dexes (data no_dex_wallet) = None"
    by (simp add: find_dexes_def no_dex_wallet_def)
  have h2: "find_dexes (data empty_transactions_wallet) =
              Some \<lparr>protocolType = ''dexes'', transactions = []\<rparr>"
    by (simp add: find_dexes_def empty_transactions_wallet_def)
  have h3: "calculate_score empty_transactions_wallet =
     Inr (0, [(''lp_score'', PNum 0), (''swap_score'', PNum 0),
              (''active_days'', PInt 0), (''total_transaction_count'', PInt 0),
              (''user_tags'', PTags [''inactive''])])"
    by (simp add: engine_defs empty_transactions_wallet_def)
  from C5_no_dexes_distinguishable[OF h1 h2 h3] show ?thesis by blast
qed

text \<open>Zero score and the inactive tag in a result; signs of the scores.\<close>

lemma inactive_iff_zero_of_result:
  assumes "find_dexes (data w) = Some dex"
      and "calculate_score w = Inr (final_score, feats)"
  shows "\<exists>lp sw tags.
           map_of feats ''lp_score'' = Some (PNum lp) \<and>
           map_of feats ''swap_score'' = Some (PNum sw) \<and>
           map_of feats ''user_tags'' = Some (PTags tags) \<and>
           (final_score = 0 \<longleftrightarrow> ''inactive'' \<in> set tags) \<and>
           0 \<le> lp \<and> 0 \<le> sw \<and> 0 \<le> final_score"
proof -
  let ?df = "transactions dex"
  from calculate_score_Inr[OF assms] obtain lp sw tags utags ad where
    p: "process_dex_transactions ?df = Inr (lp, sw, tags)" and
    c: "combine lp sw tags = (final_score, utags)" and
    f: "feats = [(''lp_score'', PNum lp), (''swap_score'', PNum sw),
                 (''active_days'', PInt ad),
                 (''total_transaction_count'', PInt (int (length ?df))),
                 (''user_tags'', PTags utags)]"
    by blast
  have q: "0 \<le> lp \<and> 0 \<le> sw \<and> ''inactive'' \<notin> set tags \<or>
           lp = 0 \<and> sw = 0 \<and> tags = [''inactive'']"
  proof (cases "?df = []")
    case True
    with p show ?thesis by (simp add: process_dex_transactions_empty)
  next
    case False
    from process_dex_transactions_Inr[OF p False] show ?thesis by auto
  qed
  with c have "(final_score = 0 \<longleftrightarrow> ''inactive'' \<in> set utags) \<and>
               0 \<le> lp \<and> 0 \<le> sw \<and> 0 \<le> final_score"
    by (auto simp: combine_def split: if_splits)
  with f show ?thesis by simp
qed

text \<open>
  C6. For a wallet with a dexes block: the engine returns a result whenever the
  timestamps are representable, and in every result it returns the final score is 0 if
  and only if \<open>inactive\<close> is among the tags, and \<open>lp_score\<close>, \<open>swap_score\<close> and the final
  score are not negative.
\<close>

theorem C6_inactive_iff_zero:
  assumes "find_dexes (data w) = Some dex"
  shows "(list_all representable (map timestamp (transactions dex)) \<longrightarrow>
           (\<exists>r. calculate_score w = Inr r)) \<and>
         (\<forall>final_score feats. calculate_score w = Inr (final_score, feats) \<longrightarrow>
            (\<exists>lp sw tags.
               map_of feats ''lp_score'' = Some (PNum lp) \<and>
               map_of feats ''swap_score'' = Some (PNum sw) \<and>
               map_of feats ''user_tags'' = Some (PTags tags) \<and>
               (final_score = 0 \<longleftrightarrow> ''inactive'' \<in> set tags) \<and>
               0 \<le> lp \<and> 0 \<le> sw \<and> 0 \<le> final_score))"
proof (rule conjI)
  show "list_all representable (map timestamp (transactions dex)) \<longrightarrow>
           (\<exists>r. calculate_score w = Inr r)"
    using calculate_score_returns[OF assms] by blast
next
  show "\<forall>final_score feats. calculate_score w = Inr (final_score, feats) \<longrightarrow>
            (\<exists>lp sw tags.
               map_of feats ''lp_score'' = Some (PNum lp) \<and>
               map_of feats ''swap_score'' = Some (PNum sw) \<and>
               map_of feats ''user_tags'' = Some (PTags tags) \<and>
               (final_score = 0 \<longleftrightarrow> ''inactive'' \<in> set tags) \<and>
               0 \<le> lp \<and> 0 \<le> sw \<and> 0 \<le> final_score)"
    using inactive_iff_zero_of_result[OF assms] by blast
qed

text \<open>
  The test's full wallet has the positive score 480 and is not tagged inactive; the
  wallet with an empty dexes block has the score 0 and is tagged inactive.
\<close>

theorem C6_inactive_iff_zero_witness:
  "calculate_score full_data_wallet =
     Inr (480, [(''lp_score'', PNum 400), (''swap_score'', PNum 600),
                (''active_days'', PInt 9), (''total_transaction_count'', PInt 10),
                (''user_tags'', PTags [''consistent_lp'', ''consistent_trader''])]) \<and>
   ((480 :: real) = 0 \<longleftrightarrow> ''inactive'' \<in> set [''consistent_lp'', ''consistent_trader'']) \<and>
   (480 :: real) \<noteq> 0 \<and>
   ''inactive'' \<notin> set [''consistent_lp'', ''consistent_trader''] \<and>
   (0 :: real) \<le> 400 \<and> (0 :: real) \<le> 600 \<and> (0 :: real) \<le> 480 \<and>
   calculate_score empty_transactions_wallet =
     Inr (0, [(''lp_score'', PNum 0), (''swap_score'', PNum 0),
              (''active_days'', PInt 0), (''total_transaction_count'', PInt 0),
              (''user_tags'', PTags [''inactive''])]) \<and>
   ((0 :: real) = 0 \<longleftrightarrow> ''inactive'' \<in> set [''inactive''])"
proof -
  let ?F = "[(''lp_score'', PNum 400), (''swap_score'', PNum 600),
             (''active_days'', PInt 9), (''total_transaction_count'', PInt 10),
             (''user_tags'', PTags [''consistent_lp'', ''consistent_trader''])]"
  let ?E = "[(''lp_score'', PNum 0), (''swap_score'', PNum 0),
             (''active_days'', PInt 0), (''total_transaction_count'', PInt 0),
             (''user_tags'', PTags [''inactive''])]"
  have f1: "find_dexes (data full_data_wallet) =
              Some \<lparr>protocolType = ''dexes'', transactions = SAMPLE_DF\<rparr>"
    by (simp add: find_dexes_def full_data_wallet_def)
  have f2: "calculate_score full_data_wallet = Inr (480, ?F)"
    by (simp add: engine_defs full_data_wallet_def SAMPLE_DF_def)
  have e1: "find_dexes (data empty_transactions_wallet) =
              Some \<lparr>protocolType = ''dexes'', transactions = []\<rparr>"
    by (simp add: find_dexes_def empty_transactions_wallet_def)
  have e2: "calculate_score empty_transactions_wallet = Inr (0, ?E)"
    by (simp add: engine_defs empty_transactions_wallet_def)
  from C6_inactive_iff_zero[OF f1] f2 obtain lp sw tags where
    a: "map_of ?F ''lp_score'' = Some (PNum lp)" and
    b: "map_of ?F ''swap_score'' = Some (PNum sw)" and
    c: "map_of ?F ''user_tags'' = Some (PTags tags)" and
    d: "((480 :: real) = 0 \<longleftrightarrow> ''inactive'' \<in> set tags)" and
    g: "0 \<le> lp" "0 \<le> sw" "(0 :: real) \<le> 480"
    by blast
  from a b c have v: "lp = 400" "sw = 600" "tags = [''consistent_lp'', ''consistent_trader'']"
    by simp_all
  from d v have f3: "((480 :: real) = 0 \<longleftrightarrow> ''inactive'' \<in> set [''consistent_lp'', ''consistent_trader''])"
    by blast
  from f3 have f4: "(480 :: real) \<noteq> 0" "''inactive'' \<notin> set [''consistent_lp'', ''consistent_trader'']"
    by simp_all
  from g v have f5: "(0 :: real) \<le> 400" "(0 :: real) \<le> 600" "(0 :: real) \<le> 480"
    by simp_all
  from C6_inactive_iff_zero[OF e1] e2 obtain lp' sw' tags' where
    c': "map_of ?E ''user_tags'' = Some (PTags tags')" and
    d': "((0 :: real) = 0 \<longleftrightarrow> ''inactive'' \<in> set tags')"
    by blast
  from c' have "tags' = [''inactive'']" by simp
  with d' have e3: "((0 :: real) = 0 \<longleftrightarrow> ''inactive'' \<in> set [''inactive''])" by blast
  show ?thesis by (intro conjI f2 f3 f4 f5 e2 e3)
qed

text \<open>
  C9. For either score type, with \<open>score_map\<close> its table of ten buckets: a value in a
  half-open bucket \<open>[lower, upper)\<close> gets that bucket's score; a value of at least 99
  gets 1000, also when no bucket holds it; a value below 99 that no bucket holds gets 0.
\<close>

theorem C9_normalize_score:
  assumes "SCORE_MAP score_type = Some score_map"
  shows "(\<forall>((lower, upper), v) \<in> set score_map.
            lower \<le> x \<and> x < upper \<longrightarrow> normalize_score x score_type = Inr v) \<and>
         (x \<ge> 99 \<longrightarrow> normalize_score x score_type = Inr 1000) \<and>
         ((\<forall>((lower, upper), v) \<in> set score_map. \<not> (lower \<le> x \<and> x < upper)) \<and> x < 99
            \<longrightarrow> normalize_score x score_type = Inr 0) \<and>
         map fst score_map =
           [(0, 1), (1, 5), (5, 10), (10, 25), (25, 50), (50, 75), (75, 90), (90, 95),
            (95, 99), (99, 100)]"
proof -
  from assms consider
    (lp) "score_type = ''lp_score''" | (swap) "score_type = ''swap_score''"
    by (auto simp: SCORE_MAP_def split: if_splits)
  then show ?thesis
  proof cases
    case lp
    with assms have m: "score_map =
        [((0, 1), 150), ((1, 5), 250), ((5, 10), 350), ((10, 25), 450), ((25, 50), 550),
         ((50, 75), 650), ((75, 90), 750), ((90, 95), 850), ((95, 99), 950), ((99, 100), 1000)]"
      by (simp add: SCORE_MAP_def)
    show ?thesis unfolding m normalize_score_def assms[unfolded m]
      by auto
  next
    case swap
    with assms have m: "score_map =
        [((0, 1), 150), ((1, 5), 250), ((5, 10), 350), ((10, 25), 450), ((25, 50), 550),
         ((50, 75), 650), ((75, 90), 800), ((90, 95), 900), ((95, 99), 950), ((99, 100), 1000)]"
      by (simp add: SCORE_MAP_def)
    show ?thesis unfolding m normalize_score_def assms[unfolded m]
      by auto
  qed
qed

text \<open>A swap percentile of 120, beyond every bucket, gets the top score.\<close>

theorem C9_normalize_score_witness:
  "SCORE_MAP ''swap_score'' =
     Some [((0, 1), 150), ((1, 5), 250), ((5, 10), 350), ((10, 25), 450), ((25, 50), 550),
           ((50, 75), 650), ((75, 90), 800), ((90, 95), 900), ((95, 99), 950),
           ((99, 100), 1000)] \<and>
   normalize_score 120 ''swap_score'' = Inr 1000"
proof -
  have h1: "SCORE_MAP ''swap_score'' =
     Some [((0, 1), 150), ((1, 5), 250), ((5, 10), 350), ((10, 25), 450), ((25, 50), 550),
           ((50, 75), 650), ((75, 90), 800), ((90, 95), 900), ((95, 99), 950),
           ((99, 100), 1000)]"
    by (simp add: SCORE_MAP_def)
  have "(120::real) \<ge> 99 \<longrightarrow> normalize_score 120 ''swap_score'' = Inr 1000"
    using C9_normalize_score[OF h1, of 120] by blast
  then have h2: "normalize_score 120 ''swap_score'' = Inr 1000" by simp
  show ?thesis by (intro conjI h1 h2)
qed

text \<open>
  C10. When the protocol list holds a dexes block \<open>p\<close> with no dexes block before it,
  whatever follows \<open>p\<close> has no influence: the engine's outcome is the same for any two
  continuations \<open>rest\<close> and \<open>rest'\<close> of the list, so later dexes blocks may be replaced
  or removed.
\<close>

theorem C10_first_dexes_block_decides:
  assumes "find_dexes pre = None" and "protocolType p = ''dexes''"
  shows "calculate_score (w\<lparr>data := pre @ p # rest\<rparr>) =
         calculate_score (w\<lparr>data := pre @ p # rest'\<rparr>)"
  using find_dexes_first[OF assms, of rest] find_dexes_first[OF assms, of rest']
  by (simp add: calculate_score_def)

text \<open>A lending block, the test's dexes block, and a second, empty dexes block that is dropped.\<close>

theorem C10_first_dexes_block_decides_witness:
  "find_dexes [\<lparr>protocolType = ''lending'', transactions = []\<rparr>] = None \<and>
   protocolType \<lparr>protocolType = ''dexes'', transactions = SAMPLE_DF\<rparr> = ''dexes'' \<and>
   calculate_score
     (full_data_wallet\<lparr>data := [\<lparr>protocolType = ''lending'', transactions = []\<rparr>] @
        \<lparr>protocolType = ''dexes'', transactions = SAMPLE_DF\<rparr> #
        [\<lparr>protocolType = ''dexes'', transactions = []\<rparr>]\<rparr>) =
   calculate_score
     (full_data_wallet\<lparr>data := [\<lparr>protocolType = ''lending'', transactions = []\<rparr>] @
        \<lparr>protocolType = ''dexes'', transactions = SAMPLE_DF\<rparr> # []\<rparr>)"
proof -
  have h1: "find_dexes [\<lparr>protocolType = ''lending'', transactions = []\<rparr>] = None"
    by (simp add: find_dexes_def)
  have h2: "protocolType \<lparr>protocolType = ''dexes'', transactions = SAMPLE_DF\<rparr> = ''dexes''"
    by simp
  show ?thesis
    by (intro conjI h1 h2 C10_first_dexes_block_decides[OF h1 h2])
qed

section \<open>Properties of the stream processor\<close>

subsection \<open>The success record is never built\<close>

lemma map_of_filter_key: "map_of (filter (\<lambda>(k, v). k \<noteq> key) kvs) key = None"
  by (induction kvs) auto

text \<open>
  The processor filters \<open>user_tags\<close> out of the features it passes on, and \<open>AIFeatures\<close>
  requires that field: the construction of the success record raises for every score
  and every feature dictionary, so the body of the \<open>try\<close> always ends in an exception,
  with the state unchanged.
\<close>

lemma AIFeatures_without_user_tags:
  "AIFeatures (filter (\<lambda>(k, v). k \<noteq> ''user_tags'') feats) = Inl ValidationError"
  by (simp add: AIFeatures_def get_tags_def map_of_filter_key split: option.splits)

lemma WalletScoreSuccess_rejected:
  "WalletScoreSuccess addr final_score now feats = Inl ValidationError"
  by (simp add: WalletScoreSuccess_def AIFeatures_without_user_tags
      split: option.splits pyval.splits)

lemma try_block_raises: "\<exists>e. try_block validate logcall now st v = (st, Some e)"
  by (simp add: try_block_def WalletScoreSuccess_rejected split: sum.splits prod.splits)

text \<open>The serializer rejects what the processor sends.\<close>

lemma send_bytes_raises: "send topic (Bytes e) out = Inl TypeError"
  by (simp add: send_def)

subsection \<open>The processor as shipped\<close>

text \<open>
  With the logger as configured, every logging call raises: an iteration ends at its
  first statement with the state untouched, and the task ends at the log line before
  the loop.
\<close>

lemma logger_raises:
  "logger ''info'' = Inl AttributeError" "logger ''error'' = Inl AttributeError"
  by (simp_all add: logger_def wrapped_logger_attributes_def)

lemma except_block_shipped: "except_block logger e now st v = (st, Some AttributeError)"
  by (cases v) (simp_all add: except_block_def logger_raises)

lemma process_message_shipped:
  "process_message validate logger now st msg = (st, Some AttributeError)"
  by (cases "msg_value msg") (simp_all add: process_message_def logger_raises)

lemma consume_shipped:
  "consume validate logger st msgs = (st, if msgs = [] then None else Some AttributeError)"
  by (cases msgs) (auto simp: process_message_shipped logger_raises)

lemma kafka_processor_shipped:
  "kafka_processor validate logger st msgs = (st, Some AttributeError)"
  by (simp add: kafka_processor_def logger_raises)

subsection \<open>The processor with a logger whose calls return\<close>

text \<open>
  Were the two logging methods to return, a message with an object payload would be
  counted once, as a failure, and the exception raised in the failure branch (by the
  construction of the failure record or by \<open>send\<close>) would leave the iteration.
\<close>

lemma except_block_effect:
  assumes "logcall ''error'' = Inr ()"
      and "except_block logcall e now st (JObj kv) = (st', esc)"
  shows "st' = st\<lparr>failure_count := failure_count st + 1\<rparr> \<and> esc \<noteq> None"
  using assms
  by (auto simp: except_block_def send_def Let_def split: sum.splits)

lemma process_message_object:
  assumes "logcall ''info'' = Inr ()" and "logcall ''error'' = Inr ()"
      and "msg_value msg = JObj kv"
      and "process_message validate logcall now st msg = (st', esc)"
  shows "st' = st\<lparr>processed_count := processed_count st + 1,
                   last_processed_timestamp := Some (seconds_of (msg_timestamp msg)),
                   failure_count := failure_count st + 1\<rparr> \<and> esc \<noteq> None"
proof -
  let ?st1 = "st\<lparr>processed_count := processed_count st + 1,
                   last_processed_timestamp := Some (seconds_of (msg_timestamp msg))\<rparr>"
  obtain e where e: "try_block validate logcall now ?st1 (JObj kv) = (?st1, Some e)"
    using try_block_raises by blast
  with assms have "except_block logcall e now ?st1 (JObj kv) = (st', esc)"
    by (simp add: process_message_def Let_def)
  from except_block_effect[OF assms(2) this] show ?thesis by simp
qed

lemma consume_counts_objects:
  assumes "logcall ''info'' = Inr ()" and "logcall ''error'' = Inr ()"
      and "list_all (\<lambda>(now, msg). \<exists>kv. msg_value msg = JObj kv) msgs"
      and "processed_count st = success_count st + failure_count st"
  shows "processed_count (fst (consume validate logcall st msgs)) =
           success_count (fst (consume validate logcall st msgs)) +
           failure_count (fst (consume validate logcall st msgs)) \<and>
         processed_count (fst (consume validate logcall st msgs)) =
           processed_count st + int (length msgs)"
  using assms(3,4)
proof (induction msgs arbitrary: st)
  case Nil
  then show ?case by simp
next
  case (Cons m msgs)
  obtain now msg where m: "m = (now, msg)" by (cases m)
  with Cons.prems obtain kv where kv: "msg_value msg = JObj kv" by auto
  obtain st' esc where p: "process_message validate logcall now st msg = (st', esc)"
    by (cases "process_message validate logcall now st msg")
  from process_message_object[OF assms(1,2) kv p] Cons.prems(2)
  have inv: "processed_count st' = success_count st' + failure_count st'"
    and cnt: "processed_count st' = processed_count st + 1"
    and esc: "esc \<noteq> None"
    by simp_all
  from esc obtain e where e: "esc = Some e" by auto
  from Cons.prems(1) m have rest: "list_all (\<lambda>(now, msg). \<exists>kv. msg_value msg = JObj kv) msgs"
    by simp
  from Cons.IH[OF rest inv] m p e cnt assms(2) show ?case by simp
qed

subsection \<open>The timestamp in seconds\<close>

text \<open>
  For a present-day timestamp the float division is exact enough for the truncation
  to be the integer quotient; for a large one the quotient rounds up to the next
  integer before it is truncated.
\<close>

lemma seconds_of_example: "seconds_of 1700000000000 = 1700000000"
  by (simp add: seconds_of_def py_int_def true_div_def scale2_def round_half_even_def Let_def)

lemma seconds_of_rounds_up: "seconds_of 17592186044416999 = 17592186044417"
  by (simp add: seconds_of_def py_int_def true_div_def scale2_def round_half_even_def Let_def)

subsection \<open>Claims about the processor\<close>

text \<open>
  C1. The claim: a message that passes validation and is scored without an engine
  exception yields a success record, with the score formatted to 18 decimals, on the
  success topic. On a well-formed wallet with one swap: validation passes, the engine
  returns the score 100, and the construction of the success record raises
  ValidationError. With a logger whose calls return, the failure branch is taken and
  the send of the failure record raises TypeError: one message processed, one failure
  counted, no success, nothing published. As shipped, the first logging call of the
  iteration raises AttributeError: nothing is counted and nothing is published, and
  the task itself ends at its first log line.
\<close>

theorem C1_valid_message_is_reported_as_failure:
  "model_validate (msg_value swap_message) =
     Inr \<lparr>wallet_address = ''0x123'',
          data = [\<lparr>protocolType = ''dexes'',
                   transactions = [\<lparr>action = ''swap'', timestamp = 1672531200\<rparr>]\<rparr>]\<rparr> \<and>
   calculate_score
     \<lparr>wallet_address = ''0x123'',
      data = [\<lparr>protocolType = ''dexes'',
               transactions = [\<lparr>action = ''swap'', timestamp = 1672531200\<rparr>]\<rparr>]\<rparr> =
     Inr (100, [(''lp_score'', PNum 0), (''swap_score'', PNum 100),
                (''active_days'', PInt 1), (''total_transaction_count'', PInt 1),
                (''user_tags'', PTags [''consistent_trader''])]) \<and>
   WalletScoreSuccess ''0x123'' 100 1700000001
     [(''lp_score'', PNum 0), (''swap_score'', PNum 100),
      (''active_days'', PInt 1), (''total_transaction_count'', PInt 1),
      (''user_tags'', PTags [''consistent_trader''])] = Inl ValidationError \<and>
   process_message model_validate (\<lambda>method_name. Inr ()) 1700000001 initial_state swap_message =
     (\<lparr>processed_count = 1, success_count = 0, failure_count = 1,
       last_processed_timestamp = Some 1700000000, published = []\<rparr>,
      Some TypeError) \<and>
   process_message model_validate logger 1700000001 initial_state swap_message =
     (initial_state, Some AttributeError) \<and>
   kafka_processor model_validate logger initial_state [(1700000001, swap_message)] =
     (initial_state, Some AttributeError)"
  by (simp add: swap_message_def validate_defs engine_defs processor_defs seconds_of_example
      WalletScoreSuccess_def AIFeatures_def get_int_def get_float_def get_tags_def)

text \<open>
  C7. The claim: a message that fails validation yields exactly one failure record on
  the failure topic, one more counted failure, and no exception that leaves the
  per-message handler. On a message without \<open>wallet_address\<close>, with a logger whose
  calls return: validation fails, the failure is counted, the failure record is built
  with the address \<open>N/A\<close>, and its send raises TypeError, so nothing is published and
  the exception leaves the handler. On a message whose \<open>wallet_address\<close> is the number
  123: the failure is counted and the failure record itself cannot be built. As
  shipped, for both messages, the first logging call raises AttributeError: no failure
  is counted and nothing is published.
\<close>

theorem C7_failure_record_is_never_sent:
  "model_validate (msg_value missing_address_message) = Inl ValidationError \<and>
   process_message model_validate (\<lambda>method_name. Inr ()) 1700000001 initial_state
       missing_address_message =
     (\<lparr>processed_count = 1, success_count = 0, failure_count = 1,
       last_processed_timestamp = Some 1700000000, published = []\<rparr>,
      Some TypeError) \<and>
   model_validate (msg_value numeric_address_message) = Inl ValidationError \<and>
   process_message model_validate (\<lambda>method_name. Inr ()) 1700000001 initial_state
       numeric_address_message =
     (\<lparr>processed_count = 1, success_count = 0, failure_count = 1,
       last_processed_timestamp = Some 1700000000, published = []\<rparr>,
      Some ValidationError) \<and>
   process_message model_validate logger 1700000001 initial_state missing_address_message =
     (initial_state, Some AttributeError) \<and>
   process_message model_validate logger 1700000001 initial_state numeric_address_message =
     (initial_state, Some AttributeError)"
  by (simp add: missing_address_message_def numeric_address_message_def validate_defs
      processor_defs seconds_of_example)

text \<open>
  C8. The claim: every inbound message adds exactly 1 to \<open>processed_count\<close>, sets
  \<open>last_processed_timestamp\<close> and adds exactly 1 to exactly one of \<open>success_count\<close> and
  \<open>failure_count\<close>. As shipped, a well-formed message leaves every counter where it
  was: the logging call that opens the iteration raises AttributeError before the
  counters are reached, and over a run of two messages the task ends at its first log
  line with nothing counted. With a logger whose calls return, a payload that is a
  JSON array is still not counted: the argument of that first logging call,
  \<open>msg.value.get\<close>, raises outside the inner \<open>try\<close>.
\<close>

theorem C8_messages_are_not_counted:
  "process_message model_validate logger 1700000001 initial_state swap_message =
     (initial_state, Some AttributeError) \<and>
   processed_count
       (fst (process_message model_validate logger 1700000001 initial_state swap_message))
     \<noteq> processed_count initial_state + 1 \<and>
   kafka_processor model_validate logger initial_state
       [(1700000001, swap_message), (1700000002, missing_address_message)] =
     (initial_state, Some AttributeError) \<and>
   process_message model_validate (\<lambda>method_name. Inr ()) 1700000001 initial_state
       array_message =
     (initial_state, Some AttributeError)"
  by (simp add: swap_message_def array_message_def processor_defs)

end
